theory Spec2Isabelle
  imports Complex_Main
begin

section \<open>Shared data\<close>

text \<open>
  The repository has two programs that meet at one OpenSearch index:
  \<^verbatim>\<open>embedding.py\<close> builds the index from a directory of PDF files and
  \<^verbatim>\<open>api.py\<close> answers similarity queries against it. Both call libraries
  that are not part of the repository (the embedding model, the text splitter,
  the OpenSearch client, the HTTP client). Those calls are taken from an
  environment record, one field per call, so that every statement below holds
  for every behaviour of the library unless a hypothesis says otherwise.
  Python exceptions are values of the type \<open>exc\<close>; a call that may raise
  returns \<open>exc + 'a\<close> with \<open>Inl\<close> the exception.
\<close>

type_synonym vector = "real list"

type_synonym metadata = "(string \<times> string) list"

datatype exc =
    RequestError string
  | NotFoundError string
  | ConnectionError string
  | NewConnectionError string
  | TimeoutError string
  | ValueError string
  | OtherException string

text \<open>\<open>str(e)\<close>: the message an exception carries.\<close>

fun exc_str :: "exc \<Rightarrow> string" where
  "exc_str (RequestError m) = m"
| "exc_str (NotFoundError m) = m"
| "exc_str (ConnectionError m) = m"
| "exc_str (NewConnectionError m) = m"
| "exc_str (TimeoutError m) = m"
| "exc_str (ValueError m) = m"
| "exc_str (OtherException m) = m"

definition OPENSEARCH_INDEX :: string where
  "OPENSEARCH_INDEX = ''webinar_pdf_index''"

definition TEXT_FIELD :: string where
  "TEXT_FIELD = ''content''"

definition EMBEDDING_FIELD :: string where
  "EMBEDDING_FIELD = ''embedding''"

definition CHUNK_SIZE :: nat where
  "CHUNK_SIZE = 512"

definition CHUNK_OVERLAP :: nat where
  "CHUNK_OVERLAP = 128"

definition MODEL_NAME :: string where
  "MODEL_NAME = ''BAAI/bge-m3''"

definition VECTOR_DIM :: nat where
  "VECTOR_DIM = 1024"

section \<open>The query service (api.py)\<close>

definition INDEX_NAME :: string where
  "INDEX_NAME = ''webinar_pdf_index''"

text \<open>\<open>model = SentenceTransformer('BAAI/bge-m3')\<close>: the name the query service loads.\<close>

definition API_MODEL_NAME :: string where
  "API_MODEL_NAME = ''BAAI/bge-m3''"

text \<open>\<open>class QueryRequest(BaseModel)\<close>: the request body has the one field \<open>query\<close>.\<close>

record query_request =
  query :: string

text \<open>
  The dictionary built by \<open>create_search_query\<close>. Its constant parts are
  kept as fields so that the body sent to the store can be compared whole.
\<close>

record search_query =
  q_size :: int
  q_source :: "string list"
  q_lang :: string
  q_script :: string
  q_field :: string
  q_query_value :: vector
  q_space_type :: string

definition create_search_query :: "vector \<Rightarrow> int \<Rightarrow> search_query" where
  "create_search_query query_vector top_k =
     \<lparr> q_size = top_k,
       q_source = [''content'', ''metadata''],
       q_lang = ''knn'',
       q_script = ''knn_score'',
       q_field = ''embedding'',
       q_query_value = query_vector,
       q_space_type = ''cosinesimil'' \<rparr>"

text \<open>The default of the parameter \<open>top_k\<close>, used by the one call site.\<close>

definition default_top_k :: int where
  "default_top_k = 3"

text \<open>
  One element of \<open>response["hits"]["hits"]\<close>: the \<open>_source\<close> object, whose
  keys \<open>content\<close> and \<open>metadata\<close> may be absent, and the \<open>_score\<close>.
\<close>

record hit =
  h_content :: "string option"
  h_metadata :: "metadata option"
  h_score :: real

record search_result =
  r_text :: string
  r_metadata :: metadata
  r_score :: real
  r_file_path :: string

record search_response =
  results :: "search_result list"

text \<open>\<open>d.get(k, default)\<close> on an association list.\<close>

definition dict_get :: "('k \<times> 'v) list \<Rightarrow> 'k \<Rightarrow> 'v \<Rightarrow> 'v" where
  "dict_get d k dflt = (case map_of d k of None \<Rightarrow> dflt | Some v \<Rightarrow> v)"

definition option_get :: "'a option \<Rightarrow> 'a \<Rightarrow> 'a" where
  "option_get x dflt = (case x of None \<Rightarrow> dflt | Some v \<Rightarrow> v)"

definition result_of_hit :: "hit \<Rightarrow> search_result" where
  "result_of_hit h =
     \<lparr> r_text = option_get (h_content h) [],
       r_metadata = option_get (h_metadata h) [],
       r_score = h_score h,
       r_file_path = dict_get (option_get (h_metadata h) []) ''file_path'' ''N/A'' \<rparr>"

text \<open>
  What the endpoint calls outside the repository: \<open>model.encode\<close>, the
  conversion \<open>astype(np.float32)\<close> of each component, and
  \<open>opensearch_client.search\<close>.
\<close>

record deps =
  encode :: "string \<Rightarrow> exc + vector"
  float32 :: "real \<Rightarrow> real"
  client_search :: "string \<Rightarrow> search_query \<Rightarrow> exc + hit list"

text \<open>The calls that leave the process, in the order they are made.\<close>

datatype call =
    Encode string
  | StoreSearch string search_query

datatype http_exception = HTTPException nat string

fun status_code :: "http_exception \<Rightarrow> nat" where
  "status_code (HTTPException c d) = c"

text \<open>
  The body of the \<open>try\<close> block of \<open>search\<close>: the value it returns or the
  exception that leaves it, with the calls made up to that point. The
  messages the endpoint logs are left out; they decide nothing.
\<close>

definition search_body :: "deps \<Rightarrow> query_request \<Rightarrow> (exc + search_response) \<times> call list" where
  "search_body d request =
     (case encode d (query request) of
        Inl e \<Rightarrow> (Inl e, [Encode (query request)])
      | Inr emb \<Rightarrow>
          (let query_embedding = map (float32 d) emb;
               search_query = create_search_query query_embedding default_top_k
           in case client_search d INDEX_NAME search_query of
                Inl e \<Rightarrow>
                  (Inl e, [Encode (query request), StoreSearch INDEX_NAME search_query])
              | Inr hits \<Rightarrow>
                  (Inr \<lparr> results = map result_of_hit hits \<rparr>,
                   [Encode (query request), StoreSearch INDEX_NAME search_query])))"

text \<open>
  The two \<open>except\<close> clauses, in the source's order: \<open>RequestError\<close> first, then
  every other \<open>Exception\<close>.
\<close>

fun search_handler :: "exc \<Rightarrow> http_exception" where
  "search_handler (RequestError m) = HTTPException 400 (''Search request error: '' @ m)"
| "search_handler e = HTTPException 500 (''Internal server error: '' @ exc_str e)"

definition search :: "deps \<Rightarrow> query_request \<Rightarrow> (http_exception + search_response) \<times> call list" where
  "search d request =
     (case search_body d request of
        (Inl e, cs) \<Rightarrow> (Inl (search_handler e), cs)
      | (Inr response, cs) \<Rightarrow> (Inr response, cs))"

section \<open>The Index Store\<close>

text \<open>
  The store holds named indices; an index has the mapping it was created with
  and the records written to it. The engine itself is outside the repository:
  \<open>opensearch_search\<close> below states the two facts about it that the claims on
  the query service rest on, namely that a search of a missing index raises
  \<open>NotFoundError\<close> (HTTP 404, \<open>index_not_found_exception\<close>) and that a search of
  an existing index returns the \<open>size\<close> best records, best first. The scoring
  function is a parameter.
\<close>

datatype field_type =
    Knn_vector nat string string string
  | Text_field
  | Object_field

type_synonym mapping = "(string \<times> field_type) list"

record index_record =
  rec_content :: string
  rec_metadata :: metadata
  rec_embedding :: vector

record index =
  ix_mapping :: mapping
  ix_docs :: "index_record list"

type_synonym store = "string \<rightharpoonup> index"

definition hit_of_record :: "(vector \<Rightarrow> vector \<Rightarrow> real) \<Rightarrow> vector \<Rightarrow> index_record \<Rightarrow> hit" where
  "hit_of_record sim qv r =
     \<lparr> h_content = Some (rec_content r),
       h_metadata = Some (rec_metadata r),
       h_score = sim qv (rec_embedding r) \<rparr>"

definition opensearch_search ::
  "(vector \<Rightarrow> vector \<Rightarrow> real) \<Rightarrow> store \<Rightarrow> string \<Rightarrow> search_query \<Rightarrow> exc + hit list" where
  "opensearch_search sim st name body =
     (case st name of
        None \<Rightarrow> Inl (NotFoundError ''index_not_found_exception'')
      | Some ix \<Rightarrow>
          Inr (take (nat (q_size body))
                (sort_key (\<lambda>h. - h_score h)
                   (map (hit_of_record sim (q_query_value body)) (ix_docs ix)))))"

section \<open>The ingestion pipeline (embedding.py)\<close>

record document =
  doc_text :: string
  doc_metadata :: metadata

record node =
  node_text :: string
  node_metadata :: metadata

text \<open>One constructor for each message the pipeline logs.\<close>

datatype log_entry =
    Info_opensearch_ready
  | Info_waiting_for_opensearch
  | Info_created_index string
  | Warning_attempt_failed nat
  | Error_reading_pdf string string
  | Info_using_device string
  | Info_created_pdf_corpus
  | Info_processing string
  | Error_processing string string
  | Info_loaded nat
  | Info_created_nodes nat
  | Info_embedding_dimension nat
  | Info_index_saved
  | Error_no_documents
  | Info_force_update_completed
  | Error_force_update string

text \<open>The calls of the pipeline that leave the process.\<close>

datatype effect =
    Probe nat
  | Sleep nat
  | IndicesExists string
  | IndicesCreate string mapping
  | EmbedText string
  | BuildIndex "node list"
  | PickleDump

text \<open>
  \<open>requests.get(OPENSEARCH_ENDPOINT)\<close> returns a response with a status code
  or raises; \<open>took\<close> is the time the call needed, in clock ticks. The call
  is made without a \<open>timeout\<close> argument, so it may also never return.
\<close>

datatype probe_outcome = Responded nat | Raised | Hangs

record probe =
  outcome :: probe_outcome
  took :: nat

text \<open>
  One pass through the \<open>try\<close> block of \<open>setup_opensearch\<close>: the exception
  \<open>client.indices.exists\<close> raises, if any, and the one \<open>client.indices.create\<close>
  raises, if any.
\<close>

record attempt =
  exists_raises :: "exc option"
  create_raises :: "exc option"

text \<open>A file found by \<open>glob\<close>: opening or parsing it raises, or it has pages.\<close>

datatype pdf_file =
    Unreadable exc
  | Pdf "(exc + string) list"

text \<open>
  The environment of one run. \<open>hz\<close> is the number of clock ticks in a
  second; \<open>probes w k\<close> is the \<open>k\<close>-th readiness probe and \<open>attempts w i\<close> the
  behaviour of the store during connection attempt \<open>i\<close>; \<open>time.sleep(5)\<close>
  lasts five seconds and \<open>poll_overslept w k\<close> ticks more after probe \<open>k\<close>,
  \<open>retry_overslept w i\<close> ticks more after attempt \<open>i\<close>; \<open>corpus\<close> is
  \<open>None\<close> when the directory \<open>pdf_corpus\<close> does not exist.
  \<open>vector_store_index\<close> stands for the construction of the
  \<open>OpensearchVectorClient\<close> and of \<open>VectorStoreIndex(nodes, ...)\<close>, which
  embeds the nodes and writes the records: it yields the store afterwards and
  the exception it raised, if any.
\<close>

record world =
  hz :: nat
  probes :: "nat \<Rightarrow> probe"
  attempts :: "nat \<Rightarrow> attempt"
  poll_overslept :: "nat \<Rightarrow> nat"
  retry_overslept :: "nat \<Rightarrow> nat"
  cuda_available :: bool
  corpus :: "(string \<times> pdf_file) list option"
  get_nodes_from_documents :: "document list \<Rightarrow> node list"
  get_text_embedding :: "string \<Rightarrow> exc + vector"
  vector_store_index :: "node list \<Rightarrow> store \<Rightarrow> exc option \<times> store"
  pickle_dump :: "exc option"

record sys =
  clock :: nat
  store :: store
  logs :: "log_entry list"
  calls :: "effect list"

subsection \<open>Readiness\<close>

text \<open>
  \<open>wait_for_opensearch\<close>: the loop tests the elapsed time at its head only,
  sleeps five seconds after a probe that raised and not after one that
  answered with another status than 200. Between two readings of the clock at
  the head of the loop the probe's time passes, the sleep's if there was one,
  and at least one tick more for the loop itself. Whether the loop ends
  depends on the environment, so it is a partial function; \<open>None\<close> is a call
  that never returns.
\<close>

partial_function (option) wait_loop ::
  "world \<Rightarrow> nat \<Rightarrow> nat \<Rightarrow> nat \<Rightarrow> sys \<Rightarrow> ((exc + bool) \<times> sys) option" where
  "wait_loop w timeout start_time k s =
     (if clock s - start_time < timeout then
        (case outcome (probes w k) of
           Responded code \<Rightarrow>
             (if code = 200 then
                Some (Inr True,
                      s\<lparr> clock := clock s + took (probes w k),
                         calls := calls s @ [Probe k],
                         logs := logs s @ [Info_opensearch_ready] \<rparr>)
              else
                wait_loop w timeout start_time (Suc k)
                  (s\<lparr> clock := Suc (clock s + took (probes w k)),
                      calls := calls s @ [Probe k] \<rparr>))
         | Raised \<Rightarrow>
             wait_loop w timeout start_time (Suc k)
               (s\<lparr> clock := Suc (clock s + took (probes w k) + 5 * hz w + poll_overslept w k),
                   calls := calls s @ [Probe k, Sleep (5 * hz w)],
                   logs := logs s @ [Info_waiting_for_opensearch] \<rparr>)
         | Hangs \<Rightarrow> None)
      else Some (Inl (TimeoutError ''OpenSearch did not become ready in time''), s))"

definition wait_for_opensearch :: "world \<Rightarrow> nat \<Rightarrow> sys \<Rightarrow> ((exc + bool) \<times> sys) option" where
  "wait_for_opensearch w timeout s = wait_loop w (timeout * hz w) (clock s) 0 s"

subsection \<open>Connecting and ensuring the index\<close>

definition index_mapping :: mapping where
  "index_mapping =
     [(EMBEDDING_FIELD, Knn_vector VECTOR_DIM ''hnsw'' ''cosinesimil'' ''nmslib''),
      (TEXT_FIELD, Text_field),
      (''metadata'', Object_field)]"

text \<open>
  The \<open>try\<close> block of \<open>setup_opensearch\<close>: ask whether the index exists and
  create it when it does not. The host and the port, which the function reads
  from the endpoint before it waits, are part of the environment.
\<close>

definition ensure_index :: "attempt \<Rightarrow> sys \<Rightarrow> (exc + unit) \<times> sys" where
  "ensure_index a s =
     (let s1 = s\<lparr> calls := calls s @ [IndicesExists OPENSEARCH_INDEX] \<rparr>
      in case exists_raises a of
           Some e \<Rightarrow> (Inl e, s1)
         | None \<Rightarrow>
             (if store s1 OPENSEARCH_INDEX \<noteq> None then (Inr (), s1)
              else
                (let s2 = s1\<lparr> calls := calls s1 @ [IndicesCreate OPENSEARCH_INDEX index_mapping] \<rparr>
                 in case create_raises a of
                      Some e \<Rightarrow> (Inl e, s2)
                    | None \<Rightarrow>
                        (Inr (),
                         s2\<lparr> store := (store s2)(OPENSEARCH_INDEX \<mapsto>
                                        \<lparr> ix_mapping = index_mapping, ix_docs = [] \<rparr>),
                             logs := logs s2 @ [Info_created_index OPENSEARCH_INDEX] \<rparr>))))"

text \<open>The exception classes of \<open>except (ConnectionError, NewConnectionError)\<close>.\<close>

fun is_connection_error :: "exc \<Rightarrow> bool" where
  "is_connection_error (ConnectionError m) = True"
| "is_connection_error (NewConnectionError m) = True"
| "is_connection_error e = False"

datatype client = OpenSearch_client

text \<open>
  \<open>for attempt in range(max_retries)\<close>, as a recursion over the list of
  attempt numbers. A loop that runs out of attempts without returning or
  raising makes the function return \<open>None\<close>, which happens only for
  \<open>max_retries = 0\<close>. The clock of this loop counts its sleeps only: the
  time the calls to the store take is not part of any statement below.
\<close>

fun connect_loop :: "world \<Rightarrow> nat \<Rightarrow> nat list \<Rightarrow> sys \<Rightarrow> (exc + client option) \<times> sys" where
  "connect_loop w max_retries [] s = (Inr None, s)"
| "connect_loop w max_retries (attempt # rest) s =
     (case ensure_index (attempts w attempt) s of
        (Inr u, s1) \<Rightarrow> (Inr (Some OpenSearch_client), s1)
      | (Inl e, s1) \<Rightarrow>
          (if is_connection_error e then
             (if int attempt = int max_retries - 1 then (Inl e, s1)
              else
                connect_loop w max_retries rest
                  (s1\<lparr> logs := logs s1 @ [Warning_attempt_failed (attempt + 1)],
                       clock := clock s1 + 5 * hz w + retry_overslept w attempt,
                       calls := calls s1 @ [Sleep (5 * hz w)] \<rparr>))
           else (Inl e, s1)))"

definition setup_opensearch ::
  "world \<Rightarrow> nat \<Rightarrow> sys \<Rightarrow> ((exc + client option) \<times> sys) option" where
  "setup_opensearch w max_retries s =
     (case wait_for_opensearch w 300 s of
        None \<Rightarrow> None
      | Some (Inl e, s1) \<Rightarrow> Some (Inl e, s1)
      | Some (Inr ready, s1) \<Rightarrow> Some (connect_loop w max_retries [0..<max_retries] s1))"

subsection \<open>Reading the documents\<close>

text \<open>
  \<open>read_pdf\<close>: the text of the pages, each followed by a newline. Any
  exception is logged and raised again.
\<close>

fun extract_pages :: "(exc + string) list \<Rightarrow> string \<Rightarrow> exc + string" where
  "extract_pages [] text = Inr text"
| "extract_pages (Inl e # pages) text = Inl e"
| "extract_pages (Inr t # pages) text = extract_pages pages (text @ t @ [CHR 0x0A])"

definition read_pdf :: "string \<Rightarrow> pdf_file \<Rightarrow> (exc + document) \<times> log_entry list" where
  "read_pdf file_path f =
     (case (case f of Unreadable e \<Rightarrow> Inl e | Pdf pages \<Rightarrow> extract_pages pages []) of
        Inl e \<Rightarrow> (Inl e, [Error_reading_pdf file_path (exc_str e)])
      | Inr text \<Rightarrow>
          (Inr \<lparr> doc_text = text, doc_metadata = [(''file_path'', file_path)] \<rparr>, []))"

text \<open>
  The loop of \<open>process_documents\<close> over the files found: a file whose reading
  raises is logged and the loop goes on with the next one.
\<close>

fun read_documents ::
  "(string \<times> pdf_file) list \<Rightarrow> document list \<Rightarrow> log_entry list \<Rightarrow> document list \<times> log_entry list" where
  "read_documents [] documents lg = (documents, lg)"
| "read_documents ((pdf_file, f) # rest) documents lg =
     (case read_pdf pdf_file f of
        (Inr doc, lg1) \<Rightarrow>
          read_documents rest (documents @ [doc]) (lg @ [Info_processing pdf_file] @ lg1)
      | (Inl e, lg1) \<Rightarrow>
          read_documents rest documents
            (lg @ [Info_processing pdf_file] @ lg1 @ [Error_processing pdf_file (exc_str e)]))"

definition device :: "world \<Rightarrow> string" where
  "device w = (if cuda_available w then ''cuda'' else ''cpu'')"

text \<open>What \<open>pdf_dir.glob("**/*.pdf")\<close> yields; nothing when the directory was missing.\<close>

definition glob_pdf :: "world \<Rightarrow> (string \<times> pdf_file) list" where
  "glob_pdf w = (case corpus w of None \<Rightarrow> [] | Some fs \<Rightarrow> fs)"

definition process_documents :: "world \<Rightarrow> sys \<Rightarrow> document list \<times> sys" where
  "process_documents w s =
     (let lg0 = logs s @ [Info_using_device (device w)];
          lg1 = (if corpus w = None then lg0 @ [Info_created_pdf_corpus] else lg0);
          (documents, lg2) = read_documents (glob_pdf w) [] lg1
      in (documents, s\<lparr> logs := lg2 @ [Info_loaded (length documents)] \<rparr>))"

subsection \<open>Building the index\<close>

text \<open>Decimal digits of a number, for the message of the \<open>ValueError\<close>.\<close>

fun str_nat :: "nat \<Rightarrow> string" where
  "str_nat n =
     (if n < 10 then [char_of (48 + n)]
      else str_nat (n div 10) @ [char_of (48 + n mod 10)])"

definition dimension_message :: "nat \<Rightarrow> string" where
  "dimension_message n =
     ''Model produces '' @ str_nat n @ ''-dimensional vectors, but index expects ''
       @ str_nat VECTOR_DIM @ '' dimensions''"

text \<open>
  \<open>create_index\<close>: split, embed the probe text \<open>test\<close>, compare its length with
  \<open>VECTOR_DIM\<close>, and only then hand the nodes to \<open>VectorStoreIndex\<close>, which
  writes the records.
\<close>

definition create_index :: "world \<Rightarrow> document list \<Rightarrow> sys \<Rightarrow> (exc + unit) \<times> sys" where
  "create_index w documents s =
     (let nodes = get_nodes_from_documents w documents;
          s1 = s\<lparr> logs := logs s @ [Info_created_nodes (length nodes)],
                  calls := calls s @ [EmbedText ''test''] \<rparr>
      in case get_text_embedding w ''test'' of
           Inl e \<Rightarrow> (Inl e, s1)
         | Inr embeddings \<Rightarrow>
             (let dimension = length embeddings
              in if dimension \<noteq> VECTOR_DIM then (Inl (ValueError (dimension_message dimension)), s1)
                 else
                   (let s2 = s1\<lparr> logs := logs s1 @ [Info_embedding_dimension dimension],
                                 calls := calls s1 @ [BuildIndex nodes] \<rparr>;
                        (raised, st) = vector_store_index w nodes (store s2);
                        s3 = s2\<lparr> store := st \<rparr>
                    in case raised of
                         Some e \<Rightarrow> (Inl e, s3)
                       | None \<Rightarrow>
                           (let s4 = s3\<lparr> calls := calls s3 @ [PickleDump] \<rparr>
                            in case pickle_dump w of
                                 Some e \<Rightarrow> (Inl e, s4)
                               | None \<Rightarrow> (Inr (), s4\<lparr> logs := logs s4 @ [Info_index_saved] \<rparr>)))))"

subsection \<open>The run\<close>

definition force_update :: "world \<Rightarrow> sys \<Rightarrow> ((exc + unit) \<times> sys) option" where
  "force_update w s =
     (case setup_opensearch w 5 s of
        None \<Rightarrow> None
      | Some (Inl e, s1) \<Rightarrow>
          Some (Inl e, s1\<lparr> logs := logs s1 @ [Error_force_update (exc_str e)] \<rparr>)
      | Some (Inr c, s1) \<Rightarrow>
          (let (documents, s2) = process_documents w s1
           in if documents = [] then
                Some (Inr (), s2\<lparr> logs := logs s2 @ [Error_no_documents] \<rparr>)
              else
                (case create_index w documents s2 of
                   (Inl e, s3) \<Rightarrow>
                     Some (Inl e, s3\<lparr> logs := logs s3 @ [Error_force_update (exc_str e)] \<rparr>)
                 | (Inr u, s3) \<Rightarrow>
                     Some (Inr (), s3\<lparr> logs := logs s3 @ [Info_force_update_completed] \<rparr>))))"

text \<open>
  The loop is run by its defining equation, which is also its code equation.
\<close>

declare wait_loop.simps [code]

subsection \<open>What a log reports\<close>

text \<open>
  The numbers a log carries: the arguments of the messages that print one.
  A count that the run reports is among them.
\<close>

fun entry_counts :: "log_entry \<Rightarrow> nat list" where
  "entry_counts (Warning_attempt_failed n) = [n]"
| "entry_counts (Info_loaded n) = [n]"
| "entry_counts (Info_created_nodes n) = [n]"
| "entry_counts (Info_embedding_dimension n) = [n]"
| "entry_counts e = []"

definition reported_counts :: "log_entry list \<Rightarrow> nat list" where
  "reported_counts lg = concat (map entry_counts lg)"


section \<open>Example environments\<close>

text \<open>
  Concrete inputs for the examples below: a three-component embedding in place
  of the model, the inner product as the store's score, and stores with and
  without the index.
\<close>

definition unit_vector :: vector where
  "unit_vector = [1, 0, 0]"

definition sample_record :: index_record where
  "sample_record =
     \<lparr> rec_content = ''Fiber splice loss should not exceed 0.3 dB per joint'',
       rec_metadata = [(''file_path'', ''pdf_corpus/fiber.pdf'')],
       rec_embedding = unit_vector \<rparr>"

definition dot :: "vector \<Rightarrow> vector \<Rightarrow> real" where
  "dot a b = sum_list (map2 (*) a b)"

definition sample_index :: "index_record list \<Rightarrow> index" where
  "sample_index rs = \<lparr> ix_mapping = index_mapping, ix_docs = rs \<rparr>"

definition five_records :: "index_record list" where
  "five_records = replicate 5 sample_record"

definition sample_deps :: "store \<Rightarrow> deps" where
  "sample_deps st =
     \<lparr> encode = (\<lambda>q. Inr unit_vector),
       float32 = (\<lambda>x. x),
       client_search = opensearch_search dot st \<rparr>"

definition rejecting_deps :: deps where
  "rejecting_deps =
     \<lparr> encode = (\<lambda>q. Inr unit_vector),
       float32 = (\<lambda>x. x),
       client_search = (\<lambda>name body. Inl (RequestError ''search_phase_execution_exception'')) \<rparr>"

text \<open>
  For the pipeline: a store that answers the first readiness probe, one that
  refuses every probe after one tick, one that accepts the probe and never
  answers it, one that comes up at the third probe and connects at the third
  attempt, connection attempts that succeed or are refused, a corpus of three
  files of which two cannot be read, a splitter that makes one node of each
  document, and a \<open>VectorStoreIndex\<close> that appends one record for each
  node. The clock ticks once a second.
\<close>

definition up :: attempt where
  "up = \<lparr> exists_raises = None, create_raises = None \<rparr>"


definition quick_ready :: probe where
  "quick_ready = \<lparr> outcome = Responded 200, took = 1 \<rparr>"

definition quick_refused :: probe where
  "quick_refused = \<lparr> outcome = Raised, took = 1 \<rparr>"


definition split_whole :: "document list \<Rightarrow> node list" where
  "split_whole ds = map (\<lambda>d. \<lparr> node_text = doc_text d, node_metadata = doc_metadata d \<rparr>) ds"

definition append_records :: "(string \<Rightarrow> vector) \<Rightarrow> node list \<Rightarrow> store \<Rightarrow> exc option \<times> store" where
  "append_records emb nodes st =
     (None,
      st(OPENSEARCH_INDEX \<mapsto>
           \<lparr> ix_mapping = (case st OPENSEARCH_INDEX of None \<Rightarrow> index_mapping | Some ix \<Rightarrow> ix_mapping ix),
             ix_docs = (case st OPENSEARCH_INDEX of None \<Rightarrow> [] | Some ix \<Rightarrow> ix_docs ix)
                        @ map (\<lambda>n. \<lparr> rec_content = node_text n, rec_metadata = node_metadata n,
                                        rec_embedding = emb (node_text n) \<rparr>) nodes \<rparr>))"

definition sample_corpus :: "(string \<times> pdf_file) list" where
  "sample_corpus =
     [(''pdf_corpus/a.pdf'', Pdf [Inr ''Fiber splice loss'', Inr ''should not exceed 0.3 dB'']),
      (''pdf_corpus/b.pdf'', Unreadable (OtherException ''EOF marker not found'')),
      (''pdf_corpus/c.pdf'', Pdf [Inr ''OTDR trace'', Inl (OtherException ''bad page'')])]"

definition sample_world :: "vector \<Rightarrow> world" where
  "sample_world probe_vector =
     \<lparr> hz = 1,
       probes = (\<lambda>k. quick_ready),
       attempts = (\<lambda>i. up),
       poll_overslept = (\<lambda>k. 0),
       retry_overslept = (\<lambda>i. 0),
       cuda_available = False,
       corpus = Some sample_corpus,
       get_nodes_from_documents = split_whole,
       get_text_embedding = (\<lambda>t. Inr probe_vector),
       vector_store_index = append_records (\<lambda>t. probe_vector),
       pickle_dump = None \<rparr>"

definition initial_sys :: sys where
  "initial_sys = \<lparr> clock = 0, store = Map.empty, logs = [], calls = [] \<rparr>"

definition existing_sys :: sys where
  "existing_sys =
     \<lparr> clock = 0,
       store = Map.empty(OPENSEARCH_INDEX \<mapsto> \<lparr> ix_mapping = [], ix_docs = [sample_record] \<rparr>),
       logs = [],
       calls = [] \<rparr>"

definition refusing_world :: world where
  "refusing_world = (sample_world unit_vector)\<lparr> probes := (\<lambda>k. quick_refused) \<rparr>"




definition wide_world :: world where
  "wide_world = sample_world (replicate 1024 0)"


section \<open>Properties of the query service\<close>

lemmas sample_defs =
  search_def search_body_def sample_deps_def rejecting_deps_def opensearch_search_def
  create_search_query_def default_top_k_def INDEX_NAME_def hit_of_record_def sample_record_def
  sample_index_def dot_def unit_vector_def result_of_hit_def option_get_def dict_get_def

lemma search_body_store_failure:
  "encode d (query request) = Inr v \<Longrightarrow>
   client_search d INDEX_NAME (create_search_query (map (float32 d) v) default_top_k) = Inl e \<Longrightarrow>
   search_body d request =
     (Inl e, [Encode (query request),
              StoreSearch INDEX_NAME (create_search_query (map (float32 d) v) default_top_k)])"
  by (simp add: search_body_def)

lemma search_body_hits:
  "encode d (query request) = Inr v \<Longrightarrow>
   client_search d INDEX_NAME (create_search_query (map (float32 d) v) default_top_k) = Inr hits \<Longrightarrow>
   search_body d request =
     (Inr \<lparr> results = map result_of_hit hits \<rparr>,
      [Encode (query request),
       StoreSearch INDEX_NAME (create_search_query (map (float32 d) v) default_top_k)])"
  by (simp add: search_body_def)

lemma search_body_calls:
  "snd (search_body d request) =
     (case encode d (query request) of
        Inl e \<Rightarrow> [Encode (query request)]
      | Inr v \<Rightarrow> [Encode (query request),
                  StoreSearch INDEX_NAME (create_search_query (map (float32 d) v) default_top_k)])"
  by (simp add: search_body_def Let_def split: sum.splits)

lemma search_calls: "snd (search d request) = snd (search_body d request)"
  by (cases "search_body d request" rule: prod.exhaust; cases "fst (search_body d request)")
     (auto simp: search_def split: sum.splits)

lemma opensearch_search_size:
  "opensearch_search sim st name body = Inr hits \<Longrightarrow> length hits \<le> nat (q_size body)"
  by (auto simp: opensearch_search_def split: option.splits)

subsection \<open>Missing and empty index\<close>

text \<open>
  Against claim C2. With a store that has no index of the configured name the
  search does not return an empty list: the client's \<open>NotFoundError\<close> reaches
  the second \<open>except\<close> clause and the caller gets HTTP 500.
\<close>

theorem search_missing_index_counterexample:
  "fst (search (sample_deps Map.empty) \<lparr>query = ''acceptable splice loss''\<rparr>) =
     Inl (HTTPException 500 ''Internal server error: index_not_found_exception'')"
  by (simp add: sample_defs)

text \<open>
  C2, as the code has it. When the embedding succeeds and the store is the
  engine described above: a search of an existing index with no records
  returns the response whose one field \<open>results\<close> is the empty list, and a
  search of a missing index is the HTTP 500 error. The response has no field
  that tells the two apart; the missing index is told by the error alone.
\<close>

theorem search_empty_or_missing_index:
  assumes "client_search d = opensearch_search sim st"
    and "encode d (query request) = Inr v"
  shows "(\<forall>ix. st INDEX_NAME = Some ix \<and> ix_docs ix = [] \<longrightarrow>
            fst (search d request) = Inr \<lparr> results = [] \<rparr>)
         \<and> (st INDEX_NAME = None \<longrightarrow>
            fst (search d request) =
              Inl (HTTPException 500 ''Internal server error: index_not_found_exception''))"
  using assms by (auto simp: search_def search_body_def opensearch_search_def Let_def)

text \<open>Both cases of the theorem at concrete stores.\<close>

theorem search_empty_or_missing_index_witness:
  "fst (search (sample_deps (Map.empty(INDEX_NAME \<mapsto> sample_index []))) \<lparr>query = ''splice''\<rparr>)
     = Inr \<lparr> results = [] \<rparr>
   \<and> fst (search (sample_deps Map.empty) \<lparr>query = ''splice''\<rparr>)
     = Inl (HTTPException 500 ''Internal server error: index_not_found_exception'')"
proof -
  let ?st = "Map.empty(INDEX_NAME \<mapsto> sample_index [])"
  have a: "client_search (sample_deps st) = opensearch_search dot st" for st
    by (simp add: sample_deps_def)
  have b: "encode (sample_deps st) (query \<lparr>query = ''splice''\<rparr>) = Inr unit_vector" for st
    by (simp add: sample_deps_def)
  have c: "?st INDEX_NAME = Some (sample_index []) \<and> ix_docs (sample_index []) = []"
    by (simp add: sample_index_def)
  have d: "(Map.empty :: store) INDEX_NAME = None" by simp
  from search_empty_or_missing_index [OF a b, of ?st] c
       search_empty_or_missing_index [OF a b, of Map.empty] d
  show ?thesis by blast
qed

subsection \<open>Empty and whitespace-only queries\<close>

text \<open>
  Against claim C3. A query of three spaces is not rejected: it is embedded,
  the search is sent to the store, and the hit comes back with HTTP 200.
\<close>

theorem whitespace_query_counterexample:
  "search (sample_deps (Map.empty(INDEX_NAME \<mapsto> sample_index [sample_record]))) \<lparr>query = ''   ''\<rparr> =
     (Inr \<lparr> results =
        [\<lparr> r_text = ''Fiber splice loss should not exceed 0.3 dB per joint'',
           r_metadata = [(''file_path'', ''pdf_corpus/fiber.pdf'')],
           r_score = 1,
           r_file_path = ''pdf_corpus/fiber.pdf'' \<rparr>] \<rparr>,
      [Encode ''   '', StoreSearch INDEX_NAME (create_search_query unit_vector 3)])"
  by (simp add: sample_defs)

text \<open>
  C3, as the code has it. The endpoint does not look at the query string:
  every query, the empty one and the whitespace-only ones included, is passed
  to the embedding model; when the model returns a vector the search is sent
  to the store; and when the store returns hits they are the response.
\<close>

theorem search_no_query_validation:
  "Encode (query request) \<in> set (snd (search d request))
   \<and> (\<forall>v. encode d (query request) = Inr v \<longrightarrow>
          StoreSearch INDEX_NAME (create_search_query (map (float32 d) v) default_top_k)
            \<in> set (snd (search d request)))
   \<and> (\<forall>v hits. encode d (query request) = Inr v
          \<and> client_search d INDEX_NAME (create_search_query (map (float32 d) v) default_top_k) = Inr hits \<longrightarrow>
          fst (search d request) = Inr \<lparr> results = map result_of_hit hits \<rparr>)"
proof (intro conjI allI impI)
  show "Encode (query request) \<in> set (snd (search d request))"
    by (simp add: search_calls search_body_calls split: sum.splits)
next
  fix v assume "encode d (query request) = Inr v"
  then show "StoreSearch INDEX_NAME (create_search_query (map (float32 d) v) default_top_k)
               \<in> set (snd (search d request))"
    by (simp add: search_calls search_body_calls)
next
  fix v hits
  assume "encode d (query request) = Inr v
          \<and> client_search d INDEX_NAME (create_search_query (map (float32 d) v) default_top_k) = Inr hits"
  then show "fst (search d request) = Inr \<lparr> results = map result_of_hit hits \<rparr>"
    by (simp add: search_def search_body_hits)
qed

text \<open>The theorem at the empty query, against an index with no records.\<close>

theorem search_no_query_validation_witness:
  "Encode [] \<in> set (snd (search (sample_deps (Map.empty(INDEX_NAME \<mapsto> sample_index []))) \<lparr>query = []\<rparr>))
   \<and> StoreSearch INDEX_NAME (create_search_query unit_vector 3)
        \<in> set (snd (search (sample_deps (Map.empty(INDEX_NAME \<mapsto> sample_index []))) \<lparr>query = []\<rparr>))
   \<and> fst (search (sample_deps (Map.empty(INDEX_NAME \<mapsto> sample_index []))) \<lparr>query = []\<rparr>)
        = Inr \<lparr> results = [] \<rparr>"
proof -
  let ?d = "sample_deps (Map.empty(INDEX_NAME \<mapsto> sample_index []))"
  have e: "encode ?d (query \<lparr>query = []\<rparr>) = Inr unit_vector"
    by (simp add: sample_deps_def)
  have c: "client_search ?d INDEX_NAME (create_search_query (map (float32 ?d) unit_vector) default_top_k) = Inr []"
    by (simp add: sample_deps_def opensearch_search_def sample_index_def)
  have m: "map (float32 ?d) unit_vector = unit_vector"
    by (simp add: sample_deps_def)
  from search_no_query_validation [of "\<lparr>query = []\<rparr>" ?d] e c m show ?thesis
    by (simp add: default_top_k_def)
qed

subsection \<open>Error categories\<close>

text \<open>
  C5. Whatever exception leaves the \<open>try\<close> block of \<open>search\<close>, the caller gets
  HTTP 400 with the detail \<open>Search request error: ...\<close> exactly when it is a
  \<open>RequestError\<close>, and HTTP 500 with the detail \<open>Internal server error: ...\<close>
  for every other exception.
\<close>

theorem search_error_categories:
  assumes "fst (search_body d request) = Inl e"
  shows "fst (search d request) =
           Inl (HTTPException (if (\<exists>m. e = RequestError m) then 400 else 500)
                 ((if (\<exists>m. e = RequestError m) then ''Search request error: ''
                   else ''Internal server error: '') @ exc_str e))"
  using assms by (cases "search_body d request"; cases e) (simp_all add: search_def)

text \<open>
  A store that rejects the request gives 400; a store without the index, whose
  client raises \<open>NotFoundError\<close>, gives 500.
\<close>

theorem search_error_categories_witness:
  "fst (search rejecting_deps \<lparr>query = ''splice loss''\<rparr>) =
     Inl (HTTPException 400 ''Search request error: search_phase_execution_exception'')
   \<and> fst (search (sample_deps Map.empty) \<lparr>query = ''splice loss''\<rparr>) =
     Inl (HTTPException 500 ''Internal server error: index_not_found_exception'')"
proof -
  have a: "fst (search_body rejecting_deps \<lparr>query = ''splice loss''\<rparr>) =
             Inl (RequestError ''search_phase_execution_exception'')"
    by (simp add: search_body_def rejecting_deps_def)
  have b: "fst (search_body (sample_deps Map.empty) \<lparr>query = ''splice loss''\<rparr>) =
             Inl (NotFoundError ''index_not_found_exception'')"
    by (simp add: search_body_def sample_deps_def opensearch_search_def)
  show ?thesis
    using search_error_categories [OF a] search_error_categories [OF b] by simp
qed

subsection \<open>The number of results\<close>

text \<open>
  C10. Every search the endpoint sends to the store asks for \<open>size = 3\<close>,
  whatever the request, whose only field is the query string; so when the
  store returns no more hits than the size it was asked for, the response has
  at most three results.
\<close>

theorem search_top_k:
  "(\<forall>c \<in> set (snd (search d request)). \<forall>name body. c = StoreSearch name body \<longrightarrow> q_size body = 3)
   \<and> ((\<forall>name body hits. client_search d name body = Inr hits \<longrightarrow> length hits \<le> nat (q_size body))
        \<longrightarrow> (\<forall>response. fst (search d request) = Inr response \<longrightarrow> length (results response) \<le> 3))"
proof (intro conjI ballI allI impI)
  fix c name body
  assume "c \<in> set (snd (search d request))" and "c = StoreSearch name body"
  then show "q_size body = 3"
    by (auto simp: search_calls search_body_calls create_search_query_def default_top_k_def
             split: sum.splits)
next
  fix response
  assume honest: "\<forall>name body hits. client_search d name body = Inr hits \<longrightarrow> length hits \<le> nat (q_size body)"
    and ok: "fst (search d request) = Inr response"
  from ok obtain v hits where
    "client_search d INDEX_NAME (create_search_query (map (float32 d) v) default_top_k) = Inr hits"
    and r: "response = \<lparr> results = map result_of_hit hits \<rparr>"
    by (auto simp: search_def search_body_def Let_def split: sum.splits)
  with honest have "length hits \<le> nat (q_size (create_search_query (map (float32 d) v) default_top_k))"
    by blast
  then show "length (results response) \<le> 3"
    by (simp add: r create_search_query_def default_top_k_def)
qed

text \<open>An index of five records: the search asks for three and three come back.\<close>

theorem search_top_k_witness:
  "snd (search (sample_deps (Map.empty(INDEX_NAME \<mapsto> sample_index five_records)))
               \<lparr>query = ''splice loss''\<rparr>)
     = [Encode ''splice loss'', StoreSearch INDEX_NAME (create_search_query unit_vector 3)]
   \<and> q_size (create_search_query unit_vector 3) = 3
   \<and> (\<exists>response. fst (search (sample_deps (Map.empty(INDEX_NAME \<mapsto> sample_index five_records)))
                        \<lparr>query = ''splice loss''\<rparr>) = Inr response
        \<and> length (results response) \<le> 3)"
proof -
  let ?d = "sample_deps (Map.empty(INDEX_NAME \<mapsto> sample_index five_records))"
  let ?r = "\<lparr>query = ''splice loss''\<rparr>"
  have h: "\<forall>name body hits. client_search ?d name body = Inr hits \<longrightarrow> length hits \<le> nat (q_size body)"
    by (simp add: sample_deps_def opensearch_search_size)
  have c: "snd (search ?d ?r) = [Encode ''splice loss'', StoreSearch INDEX_NAME (create_search_query unit_vector 3)]"
    by (simp add: search_calls search_body_calls sample_deps_def default_top_k_def unit_vector_def)
  have e: "\<exists>response. fst (search ?d ?r) = Inr response"
    by (simp add: sample_defs five_records_def)
  from search_top_k [of ?d ?r] h c e show ?thesis
    by auto
qed

subsection \<open>The embedding model\<close>

text \<open>
  Both programs name the same model. What the two libraries compute from it is
  outside the repository.
\<close>

lemma embedding_model_names_agree: "MODEL_NAME = API_MODEL_NAME"
  by (simp add: MODEL_NAME_def API_MODEL_NAME_def)

section \<open>Properties of the ingestion pipeline\<close>

subsection \<open>Documents that cannot be read\<close>

lemma read_documents_fst:
  "fst (read_documents files documents lg) =
     documents @ map (\<lambda>(p, f). projr (fst (read_pdf p f)))
                   (filter (\<lambda>(p, f). \<not> isl (fst (read_pdf p f))) files)"
  by (induction files arbitrary: documents lg) (auto split: prod.splits sum.splits)

lemma read_documents_logs_prefix:
  "\<exists>more. snd (read_documents files documents lg) = lg @ more"
proof (induction files arbitrary: documents lg)
  case Nil
  then show ?case by simp
next
  case (Cons pf files)
  obtain p f where pf: "pf = (p, f)" by (cases pf)
  obtain r lg1 where r: "read_pdf p f = (r, lg1)" by (cases "read_pdf p f")
  show ?case
  proof (cases r)
    case (Inl e)
    from Cons.IH [of documents "lg @ [Info_processing p] @ lg1 @ [Error_processing p (exc_str e)]"]
    obtain more where
      "snd (read_documents files documents
              (lg @ [Info_processing p] @ lg1 @ [Error_processing p (exc_str e)])) =
       (lg @ [Info_processing p] @ lg1 @ [Error_processing p (exc_str e)]) @ more"
      by blast
    then show ?thesis by (simp add: pf r Inl)
  next
    case (Inr doc)
    from Cons.IH [of "documents @ [doc]" "lg @ [Info_processing p] @ lg1"]
    obtain more where
      "snd (read_documents files (documents @ [doc]) (lg @ [Info_processing p] @ lg1)) =
       (lg @ [Info_processing p] @ lg1) @ more"
      by blast
    then show ?thesis by (simp add: pf r Inr)
  qed
qed

lemma read_documents_logs_mono:
  "set lg \<subseteq> set (snd (read_documents files documents lg))"
  using read_documents_logs_prefix [of files documents lg] by auto

lemma read_documents_error_logged:
  "(p, f) \<in> set files \<Longrightarrow> fst (read_pdf p f) = Inl e \<Longrightarrow>
   Error_processing p (exc_str e) \<in> set (snd (read_documents files documents lg))"
proof (induction files arbitrary: documents lg)
  case Nil
  then show ?case by simp
next
  case (Cons pf files)
  obtain p' f' where pf: "pf = (p', f')" by (cases pf)
  show ?case
  proof (cases "(p, f) = (p', f')")
    case True
    obtain lg1 where r: "read_pdf p f = (Inl e, lg1)"
      using Cons.prems(2) by (cases "read_pdf p f") simp
    have "Error_processing p (exc_str e)
            \<in> set (lg @ [Info_processing p] @ lg1 @ [Error_processing p (exc_str e)])"
      by simp
    with read_documents_logs_mono
    have "Error_processing p (exc_str e)
            \<in> set (snd (read_documents files documents
                   (lg @ [Info_processing p] @ lg1 @ [Error_processing p (exc_str e)])))"
      by blast
    then show ?thesis
      using True r pf by simp
  next
    case False
    with Cons.prems pf have "(p, f) \<in> set files" by auto
    from Cons.IH [OF this Cons.prems(2)] show ?thesis
      by (simp add: pf split: prod.splits sum.splits)
  qed
qed

lemma length_filter_not:
  "length (filter (\<lambda>x. \<not> P x) xs) = length xs - length (filter P xs)"
  using sum_length_filter_compl [of P xs] by simp

lemma process_documents_fst:
  "fst (process_documents w s) =
     map (\<lambda>(p, f). projr (fst (read_pdf p f)))
       (filter (\<lambda>(p, f). \<not> isl (fst (read_pdf p f))) (glob_pdf w))"
  using read_documents_fst [of "glob_pdf w" "[]"]
  by (simp add: process_documents_def Let_def split: prod.splits) (metis fst_conv)

lemma process_documents_length:
  "length (fst (process_documents w s)) =
     length (glob_pdf w) - length (filter (\<lambda>(p, f). isl (fst (read_pdf p f))) (glob_pdf w))"
  using length_filter_not [of "\<lambda>(p, f). isl (fst (read_pdf p f))" "glob_pdf w"]
  by (simp add: process_documents_fst case_prod_unfold)

lemma process_documents_errors_logged:
  "(p, f) \<in> set (glob_pdf w) \<Longrightarrow> fst (read_pdf p f) = Inl e \<Longrightarrow>
   Error_processing p (exc_str e) \<in> set (logs (snd (process_documents w s)))"
proof -
  assume "(p, f) \<in> set (glob_pdf w)" and "fst (read_pdf p f) = Inl e"
  from read_documents_error_logged [OF this]
  show ?thesis
    by (simp add: process_documents_def Let_def split: prod.splits) (metis snd_conv)
qed

lemma process_documents_store:
  "store (snd (process_documents w s)) = store s"
  by (simp add: process_documents_def Let_def split: prod.splits)

text \<open>
  C7. \<open>process_documents\<close> always returns: its documents are those of the
  files that \<open>read_pdf\<close> reads, in the order of the files, so of \<open>N\<close> files
  of which \<open>M\<close> fail it returns \<open>N - M\<close> documents; and the log has an error
  entry for every file that failed.
\<close>

theorem process_documents_skips_failures:
  "fst (process_documents w s) =
     map (\<lambda>(p, f). projr (fst (read_pdf p f)))
       (filter (\<lambda>(p, f). \<not> isl (fst (read_pdf p f))) (glob_pdf w))
   \<and> length (fst (process_documents w s)) =
       length (glob_pdf w) - length (filter (\<lambda>(p, f). isl (fst (read_pdf p f))) (glob_pdf w))
   \<and> (\<forall>(p, f) \<in> set (glob_pdf w). \<forall>e. fst (read_pdf p f) = Inl e \<longrightarrow>
         Error_processing p (exc_str e) \<in> set (logs (snd (process_documents w s))))"
  using process_documents_fst [of w s] process_documents_length [of w s]
        process_documents_errors_logged [of _ _ w _ s]
  by blast

text \<open>
  Three files, of which one cannot be opened and one has a page whose
  extraction raises: one document, and both failures in the log.
\<close>

theorem process_documents_skips_failures_witness:
  "fst (process_documents (sample_world unit_vector) initial_sys) =
     [\<lparr> doc_text = ''Fiber splice loss'' @ [CHR 0x0A] @ ''should not exceed 0.3 dB'' @ [CHR 0x0A],
        doc_metadata = [(''file_path'', ''pdf_corpus/a.pdf'')] \<rparr>]
   \<and> length (fst (process_documents (sample_world unit_vector) initial_sys)) = 3 - 2
   \<and> Error_processing ''pdf_corpus/b.pdf'' ''EOF marker not found''
        \<in> set (logs (snd (process_documents (sample_world unit_vector) initial_sys)))
   \<and> Error_processing ''pdf_corpus/c.pdf'' ''bad page''
        \<in> set (logs (snd (process_documents (sample_world unit_vector) initial_sys)))"
proof -
  let ?w = "sample_world unit_vector"
  have g: "glob_pdf ?w = sample_corpus"
    by (simp add: glob_pdf_def sample_world_def)
  have a: "fst (read_pdf ''pdf_corpus/a.pdf'' (Pdf [Inr ''Fiber splice loss'', Inr ''should not exceed 0.3 dB'']))
             = Inr \<lparr> doc_text = ''Fiber splice loss'' @ [CHR 0x0A] @ ''should not exceed 0.3 dB'' @ [CHR 0x0A],
                     doc_metadata = [(''file_path'', ''pdf_corpus/a.pdf'')] \<rparr>"
    by (simp add: read_pdf_def)
  have b: "fst (read_pdf ''pdf_corpus/b.pdf'' (Unreadable (OtherException ''EOF marker not found'')))
             = Inl (OtherException ''EOF marker not found'')"
    by (simp add: read_pdf_def)
  have c: "fst (read_pdf ''pdf_corpus/c.pdf'' (Pdf [Inr ''OTDR trace'', Inl (OtherException ''bad page'')]))
             = Inl (OtherException ''bad page'')"
    by (simp add: read_pdf_def)
  from process_documents_skips_failures [of ?w initial_sys]
  show ?thesis
    unfolding g sample_corpus_def by (simp add: a b c)
qed

subsection \<open>Ensuring the index\<close>

lemma ensure_index_existing:
  "store s OPENSEARCH_INDEX = Some ix \<Longrightarrow> exists_raises a = None \<Longrightarrow>
   ensure_index a s = (Inr (), s\<lparr> calls := calls s @ [IndicesExists OPENSEARCH_INDEX] \<rparr>)"
  by (simp add: ensure_index_def Let_def)

lemma ensure_index_creates:
  "exists_raises a = None \<Longrightarrow> create_raises a = None \<Longrightarrow>
   fst (ensure_index a s) = Inr () \<and> store (snd (ensure_index a s)) OPENSEARCH_INDEX \<noteq> None"
  by (auto simp: ensure_index_def Let_def)

lemma wait_loop_ready_at_once:
  "clock s - start < timeout \<Longrightarrow> outcome (probes w k) = Responded 200 \<Longrightarrow>
   wait_loop w timeout start k s =
     Some (Inr True, s\<lparr> clock := clock s + took (probes w k),
                        calls := calls s @ [Probe k],
                        logs := logs s @ [Info_opensearch_ready] \<rparr>)"
  by (subst wait_loop.simps) simp

text \<open>
  C6. When the index exists and the store answers, the existence check and
  creation of \<open>setup_opensearch\<close> returns without an error and changes
  nothing but the record of the one \<open>exists\<close> call: no \<open>create\<close> is sent,
  the store and with it the mapping of the index stay as they were. A second
  pass after a first one that succeeded is such a call, so two passes leave
  the store as one does. The whole of \<open>setup_opensearch\<close>, on a store that
  answers the first probe, does the same.
\<close>

theorem ensure_index_idempotent:
  "(\<forall>ix. store s OPENSEARCH_INDEX = Some ix \<and> exists_raises a = None \<longrightarrow>
       ensure_index a s = (Inr (), s\<lparr> calls := calls s @ [IndicesExists OPENSEARCH_INDEX] \<rparr>))
   \<and> (exists_raises a = None \<and> create_raises a = None \<and> exists_raises a' = None \<longrightarrow>
       fst (ensure_index a s) = Inr ()
       \<and> ensure_index a' (snd (ensure_index a s)) =
           (Inr (), (snd (ensure_index a s))
                      \<lparr> calls := calls (snd (ensure_index a s)) @ [IndicesExists OPENSEARCH_INDEX] \<rparr>))
   \<and> (\<forall>ix. 0 < hz w \<and> outcome (probes w 0) = Responded 200
          \<and> exists_raises (attempts w 0) = None \<and> store s OPENSEARCH_INDEX = Some ix \<longrightarrow>
       setup_opensearch w 5 s =
         Some (Inr (Some OpenSearch_client),
               s\<lparr> clock := clock s + took (probes w 0),
                  calls := calls s @ [Probe 0, IndicesExists OPENSEARCH_INDEX],
                  logs := logs s @ [Info_opensearch_ready] \<rparr>))"
proof (intro conjI allI impI)
  fix ix assume "store s OPENSEARCH_INDEX = Some ix \<and> exists_raises a = None"
  then show "ensure_index a s = (Inr (), s\<lparr> calls := calls s @ [IndicesExists OPENSEARCH_INDEX] \<rparr>)"
    by (simp add: ensure_index_existing)
next
  assume h: "exists_raises a = None \<and> create_raises a = None \<and> exists_raises a' = None"
  then show "fst (ensure_index a s) = Inr ()"
    by (simp add: ensure_index_creates)
  from h obtain ix where "store (snd (ensure_index a s)) OPENSEARCH_INDEX = Some ix"
    using ensure_index_creates [of a s] by auto
  with h show "ensure_index a' (snd (ensure_index a s)) =
           (Inr (), (snd (ensure_index a s))
                      \<lparr> calls := calls (snd (ensure_index a s)) @ [IndicesExists OPENSEARCH_INDEX] \<rparr>)"
    by (simp add: ensure_index_existing)
next
  fix ix
  assume h: "0 < hz w \<and> outcome (probes w 0) = Responded 200
          \<and> exists_raises (attempts w 0) = None \<and> store s OPENSEARCH_INDEX = Some ix"
  let ?s1 = "s\<lparr> clock := clock s + took (probes w 0),
                 calls := calls s @ [Probe 0],
                 logs := logs s @ [Info_opensearch_ready] \<rparr>"
  from h have w: "wait_for_opensearch w 300 s = Some (Inr True, ?s1)"
    by (simp add: wait_for_opensearch_def wait_loop_ready_at_once)
  from h have e: "ensure_index (attempts w 0) ?s1 =
      (Inr (), ?s1\<lparr> calls := calls ?s1 @ [IndicesExists OPENSEARCH_INDEX] \<rparr>)"
    by (intro ensure_index_existing [of _ ix]) simp_all
  have u: "[0..<5] = 0 # [1..<5]" by (simp add: upt_conv_Cons)
  show "setup_opensearch w 5 s =
         Some (Inr (Some OpenSearch_client),
               s\<lparr> clock := clock s + took (probes w 0),
                  calls := calls s @ [Probe 0, IndicesExists OPENSEARCH_INDEX],
                  logs := logs s @ [Info_opensearch_ready] \<rparr>)"
    by (simp add: setup_opensearch_def w u e)
qed

text \<open>
  An index that was made elsewhere, with another mapping and a record, is
  left as it is; and a second pass after the creation of the index creates
  nothing.
\<close>

theorem ensure_index_idempotent_witness:
  "ensure_index up existing_sys =
     (Inr (), existing_sys\<lparr> calls := calls existing_sys @ [IndicesExists OPENSEARCH_INDEX] \<rparr>)
   \<and> fst (ensure_index up initial_sys) = Inr ()
   \<and> ensure_index up (snd (ensure_index up initial_sys)) =
       (Inr (), (snd (ensure_index up initial_sys))
                  \<lparr> calls := calls (snd (ensure_index up initial_sys)) @ [IndicesExists OPENSEARCH_INDEX] \<rparr>)
   \<and> setup_opensearch (sample_world unit_vector) 5 existing_sys =
       Some (Inr (Some OpenSearch_client),
             existing_sys\<lparr> clock := clock existing_sys + took (probes (sample_world unit_vector) 0),
                            calls := calls existing_sys @ [Probe 0, IndicesExists OPENSEARCH_INDEX],
                            logs := logs existing_sys @ [Info_opensearch_ready] \<rparr>)"
proof -
  let ?w = "sample_world unit_vector"
  have s: "store existing_sys OPENSEARCH_INDEX = Some \<lparr> ix_mapping = [], ix_docs = [sample_record] \<rparr>"
    by (simp add: existing_sys_def)
  have u: "exists_raises up = None \<and> create_raises up = None"
    by (simp add: up_def)
  have w: "0 < hz ?w \<and> outcome (probes ?w 0) = Responded 200 \<and> exists_raises (attempts ?w 0) = None"
    by (simp add: sample_world_def quick_ready_def up_def)
  from ensure_index_idempotent [of existing_sys up up ?w]
       ensure_index_idempotent [of initial_sys up up ?w] s u w
  show ?thesis by blast
qed

subsection \<open>The dimension of the vectors\<close>

text \<open>
  Against claim C4. The query service embeds the query into a vector of three
  components, not 1024, and does not abort: the search is sent to the store
  with that vector, and a store that does not object returns a hit.
\<close>

theorem query_dimension_counterexample:
  "length unit_vector \<noteq> VECTOR_DIM
   \<and> search (sample_deps (Map.empty(INDEX_NAME \<mapsto> sample_index [sample_record])))
        \<lparr>query = ''acceptable splice loss''\<rparr> =
     (Inr \<lparr> results =
        [\<lparr> r_text = ''Fiber splice loss should not exceed 0.3 dB per joint'',
           r_metadata = [(''file_path'', ''pdf_corpus/fiber.pdf'')],
           r_score = 1,
           r_file_path = ''pdf_corpus/fiber.pdf'' \<rparr>] \<rparr>,
      [Encode ''acceptable splice loss'',
       StoreSearch INDEX_NAME (create_search_query unit_vector 3)])"
  by (simp add: sample_defs VECTOR_DIM_def)

text \<open>
  C4, as the code has it. Ingestion: when the embedding of the probe text
  \<open>test\<close> has another length than \<open>VECTOR_DIM\<close>, \<open>create_index\<close> raises
  \<open>ValueError\<close> with the store untouched and \<open>VectorStoreIndex\<close> never
  called. Query: the endpoint does not compare the length of the query vector
  with anything; the search is sent with the vector as it is, and when the
  store rejects it with \<open>RequestError\<close> the caller gets HTTP 400.
\<close>

theorem dimension_check:
  "(\<forall>v. get_text_embedding w ''test'' = Inr v \<and> length v \<noteq> VECTOR_DIM \<longrightarrow>
       create_index w documents s =
         (Inl (ValueError (dimension_message (length v))),
          s\<lparr> logs := logs s @ [Info_created_nodes (length (get_nodes_from_documents w documents))],
             calls := calls s @ [EmbedText ''test''] \<rparr>))
   \<and> (\<forall>v. encode d (query request) = Inr v \<longrightarrow>
       snd (search d request) =
         [Encode (query request),
          StoreSearch INDEX_NAME (create_search_query (map (float32 d) v) default_top_k)]
       \<and> length (q_query_value (create_search_query (map (float32 d) v) default_top_k)) = length v)
   \<and> (\<forall>v m. encode d (query request) = Inr v
         \<and> client_search d INDEX_NAME (create_search_query (map (float32 d) v) default_top_k)
             = Inl (RequestError m) \<longrightarrow>
       fst (search d request) = Inl (HTTPException 400 (''Search request error: '' @ m)))"
proof (intro conjI allI impI)
  fix v assume "get_text_embedding w ''test'' = Inr v \<and> length v \<noteq> VECTOR_DIM"
  then show "create_index w documents s =
         (Inl (ValueError (dimension_message (length v))),
          s\<lparr> logs := logs s @ [Info_created_nodes (length (get_nodes_from_documents w documents))],
             calls := calls s @ [EmbedText ''test''] \<rparr>)"
    by (simp add: create_index_def Let_def)
next
  fix v assume "encode d (query request) = Inr v"
  then show "snd (search d request) =
         [Encode (query request),
          StoreSearch INDEX_NAME (create_search_query (map (float32 d) v) default_top_k)]"
    by (simp add: search_calls search_body_calls)
next
  fix v
  show "length (q_query_value (create_search_query (map (float32 d) v) default_top_k)) = length v"
    by (simp add: create_search_query_def)
next
  fix v m
  assume "encode d (query request) = Inr v
         \<and> client_search d INDEX_NAME (create_search_query (map (float32 d) v) default_top_k)
             = Inl (RequestError m)"
  then show "fst (search d request) = Inl (HTTPException 400 (''Search request error: '' @ m))"
    by (simp add: search_def search_body_store_failure)
qed

text \<open>
  A model of three components: the ingestion stops at the check, the query
  goes to the store, and a store that rejects it makes the answer a 400.
\<close>

theorem dimension_check_witness:
  "create_index (sample_world unit_vector) [] initial_sys =
     (Inl (ValueError ''Model produces 3-dimensional vectors, but index expects 1024 dimensions''),
      initial_sys\<lparr> logs := [Info_created_nodes 0], calls := [EmbedText ''test''] \<rparr>)
   \<and> snd (search rejecting_deps \<lparr>query = ''acceptable splice loss''\<rparr>) =
       [Encode ''acceptable splice loss'', StoreSearch INDEX_NAME (create_search_query unit_vector 3)]
   \<and> fst (search rejecting_deps \<lparr>query = ''acceptable splice loss''\<rparr>) =
       Inl (HTTPException 400 ''Search request error: search_phase_execution_exception'')"
proof -
  let ?w = "sample_world unit_vector"
  let ?r = "\<lparr>query = ''acceptable splice loss''\<rparr>"
  have e: "get_text_embedding ?w ''test'' = Inr unit_vector \<and> length unit_vector \<noteq> VECTOR_DIM"
    by (simp add: sample_world_def unit_vector_def VECTOR_DIM_def)
  have m: "dimension_message (length unit_vector) =
             ''Model produces 3-dimensional vectors, but index expects 1024 dimensions''"
    by code_simp
  have n: "get_nodes_from_documents ?w [] = []"
    by (simp add: sample_world_def split_whole_def)
  have q: "encode rejecting_deps (query ?r) = Inr unit_vector"
    by (simp add: rejecting_deps_def)
  have f: "map (float32 rejecting_deps) unit_vector = unit_vector"
    by (simp add: rejecting_deps_def)
  have c: "client_search rejecting_deps INDEX_NAME
             (create_search_query (map (float32 rejecting_deps) unit_vector) default_top_k)
           = Inl (RequestError ''search_phase_execution_exception'')"
    by (simp add: rejecting_deps_def)
  from dimension_check [of ?w "[]" initial_sys rejecting_deps ?r] e q c
  show ?thesis
    by (simp add: m n f default_top_k_def initial_sys_def)
qed

subsection \<open>Readiness and connection retries\<close>








subsection \<open>What a run reports\<close>

lemma reported_counts_append:
  "reported_counts (a @ b) = reported_counts a @ reported_counts b"
  by (simp add: reported_counts_def)

lemma read_pdf_counts: "reported_counts (snd (read_pdf p f)) = []"
  by (auto simp: read_pdf_def reported_counts_def split: sum.splits pdf_file.splits)

lemma read_documents_counts:
  "\<exists>more. snd (read_documents files documents lg) = lg @ more \<and> reported_counts more = []"
proof (induction files arbitrary: documents lg)
  case Nil
  then show ?case by (simp add: reported_counts_def)
next
  case (Cons pf files)
  obtain p f where pf: "pf = (p, f)" by (cases pf)
  obtain r lg1 where r: "read_pdf p f = (r, lg1)" by (cases "read_pdf p f")
  from read_pdf_counts [of p f] r have z: "reported_counts lg1 = []" by simp
  show ?case
  proof (cases r)
    case (Inl e)
    from Cons.IH [of documents "lg @ [Info_processing p] @ lg1 @ [Error_processing p (exc_str e)]"]
    obtain more where
      m: "snd (read_documents files documents
              (lg @ [Info_processing p] @ lg1 @ [Error_processing p (exc_str e)])) =
       (lg @ [Info_processing p] @ lg1 @ [Error_processing p (exc_str e)]) @ more"
      and c: "reported_counts more = []"
      by blast
    have "reported_counts ([Info_processing p] @ lg1 @ [Error_processing p (exc_str e)] @ more) = []"
      using z c by (simp add: reported_counts_def)
    with m show ?thesis
      by (intro exI [of _ "[Info_processing p] @ lg1 @ [Error_processing p (exc_str e)] @ more"])
         (simp add: pf r Inl)
  next
    case (Inr doc)
    from Cons.IH [of "documents @ [doc]" "lg @ [Info_processing p] @ lg1"]
    obtain more where
      m: "snd (read_documents files (documents @ [doc]) (lg @ [Info_processing p] @ lg1)) =
       (lg @ [Info_processing p] @ lg1) @ more"
      and c: "reported_counts more = []"
      by blast
    have "reported_counts ([Info_processing p] @ lg1 @ more) = []"
      using z c by (simp add: reported_counts_def)
    with m show ?thesis
      by (intro exI [of _ "[Info_processing p] @ lg1 @ more"]) (simp add: pf r Inr)
  qed
qed

lemma process_documents_added:
  "\<exists>more. logs (snd (process_documents w s)) = logs s @ more
     \<and> reported_counts more = [length (fst (process_documents w s))]"
proof -
  let ?lg1 = "if corpus w = None
              then (logs s @ [Info_using_device (device w)]) @ [Info_created_pdf_corpus]
              else logs s @ [Info_using_device (device w)]"
  obtain documents lg2 where r: "read_documents (glob_pdf w) [] ?lg1 = (documents, lg2)"
    by (cases "read_documents (glob_pdf w) [] ?lg1")
  from read_documents_counts [of "glob_pdf w" "[]" ?lg1] r
  obtain more where m: "lg2 = ?lg1 @ more" and c: "reported_counts more = []"
    by auto
  obtain pre where p: "?lg1 = logs s @ pre" and pc: "reported_counts pre = []"
    by (cases "corpus w = None") (simp_all add: reported_counts_def)
  have "logs (snd (process_documents w s)) = logs s @ (pre @ more @ [Info_loaded (length documents)])"
    and "fst (process_documents w s) = documents"
    using r m p by (simp_all add: process_documents_def Let_def)
  moreover have "reported_counts (pre @ more @ [Info_loaded (length documents)]) = [length documents]"
    using c pc by (simp add: reported_counts_def)
  ultimately show ?thesis by metis
qed

lemma process_documents_calls:
  "calls (snd (process_documents w s)) = calls s"
  by (simp add: process_documents_def Let_def split: prod.splits)

lemma create_index_added:
  "\<exists>more. logs (snd (create_index w documents s)) = logs s @ more
     \<and> reported_counts more =
         length (get_nodes_from_documents w documents) #
         (case get_text_embedding w ''test'' of
            Inl e \<Rightarrow> []
          | Inr v \<Rightarrow> if length v = VECTOR_DIM then [VECTOR_DIM] else [])"
  by (auto simp: create_index_def Let_def reported_counts_def
           split: sum.splits option.splits prod.splits)

lemma create_index_stops:
  "(case get_text_embedding w ''test'' of Inl e \<Rightarrow> True | Inr v \<Rightarrow> length v \<noteq> VECTOR_DIM) \<Longrightarrow>
   store (snd (create_index w documents s)) = store s
   \<and> calls (snd (create_index w documents s)) = calls s @ [EmbedText ''test'']"
  by (auto simp: create_index_def Let_def split: sum.splits)

lemma sample_setup:
  "setup_opensearch (sample_world v) 5 initial_sys =
     Some (Inr (Some OpenSearch_client),
           \<lparr> clock = 1,
             store = Map.empty(OPENSEARCH_INDEX \<mapsto> \<lparr> ix_mapping = index_mapping, ix_docs = [] \<rparr>),
             logs = [Info_opensearch_ready, Info_created_index OPENSEARCH_INDEX],
             calls = [Probe 0, IndicesExists OPENSEARCH_INDEX,
                      IndicesCreate OPENSEARCH_INDEX index_mapping] \<rparr>)"
proof -
  have u: "[0..<5] = 0 # [1..<5]" by (simp add: upt_conv_Cons)
  show ?thesis
    by (simp add: setup_opensearch_def wait_for_opensearch_def wait_loop_ready_at_once u
        sample_world_def initial_sys_def quick_ready_def up_def ensure_index_def Let_def)
qed

text \<open>
  Against claim C9. A run over three files of which two are skipped ends
  well; its log, given whole, names each skipped file and reports the one
  document loaded and the one node created, and no entry of it carries the
  number of skipped documents, two. And a run whose store never becomes ready
  ends with \<open>TimeoutError\<close> and reports no count at all.
\<close>

theorem skipped_count_counterexample:
  "map_option (\<lambda>(r, s'). (r, logs s')) (force_update wide_world initial_sys) =
     Some (Inr (),
       [Info_opensearch_ready, Info_created_index ''webinar_pdf_index'',
        Info_using_device ''cpu'',
        Info_processing ''pdf_corpus/a.pdf'',
        Info_processing ''pdf_corpus/b.pdf'',
        Error_reading_pdf ''pdf_corpus/b.pdf'' ''EOF marker not found'',
        Error_processing ''pdf_corpus/b.pdf'' ''EOF marker not found'',
        Info_processing ''pdf_corpus/c.pdf'',
        Error_reading_pdf ''pdf_corpus/c.pdf'' ''bad page'',
        Error_processing ''pdf_corpus/c.pdf'' ''bad page'',
        Info_loaded 1, Info_created_nodes 1, Info_embedding_dimension 1024,
        Info_index_saved, Info_force_update_completed])
   \<and> length (filter (\<lambda>(p, f). isl (fst (read_pdf p f))) (glob_pdf wide_world)) = 2
   \<and> 2 \<notin> set (reported_counts
                (case force_update wide_world initial_sys of None \<Rightarrow> [] | Some (r, s') \<Rightarrow> logs s'))
   \<and> map_option (\<lambda>(r, s'). (r, reported_counts (logs s'))) (force_update refusing_world initial_sys) =
       Some (Inl (TimeoutError ''OpenSearch did not become ready in time''), [])"
  by code_simp

text \<open>
  C9, as the code has it. In every run whose store setup succeeds, the numbers
  reported after the setup are these and no others, in this order: the number
  of documents loaded, which is the number of files less the number that
  failed; when a document was loaded, the number of nodes made from the
  documents; and, when the embedding of the probe text has the configured
  length, that length. Every file that failed is named in an error entry of
  its own. When no document was loaded the run ends with the entry that none
  was found and has called nothing and written nothing. When the embedding of
  the probe text fails or has another length, the run raises having reported
  the number of nodes, with the store as the setup left it and no call but the
  embedding of the probe: the number of nodes is not a number of records
  written.
\<close>

theorem force_update_report:
  assumes "setup_opensearch w 5 s = Some (Inr c, s1)"
  shows "\<exists>r s' added. force_update w s = Some (r, s')
           \<and> logs s' = logs s1 @ added
           \<and> reported_counts added =
               length (fst (process_documents w s1)) #
               (if fst (process_documents w s1) = [] then []
                else length (get_nodes_from_documents w (fst (process_documents w s1))) #
                     (case get_text_embedding w ''test'' of
                        Inl e \<Rightarrow> []
                      | Inr v \<Rightarrow> if length v = VECTOR_DIM then [VECTOR_DIM] else []))
           \<and> length (fst (process_documents w s1)) =
               length (glob_pdf w)
                 - length (filter (\<lambda>(p, f). isl (fst (read_pdf p f))) (glob_pdf w))
           \<and> (\<forall>(p, f) \<in> set (glob_pdf w). \<forall>e. fst (read_pdf p f) = Inl e \<longrightarrow>
                 Error_processing p (exc_str e) \<in> set (logs s'))
           \<and> (fst (process_documents w s1) = [] \<longrightarrow>
                 r = Inr () \<and> last (logs s') = Error_no_documents
                 \<and> store s' = store s1 \<and> calls s' = calls s1)
           \<and> (fst (process_documents w s1) \<noteq> []
               \<and> (case get_text_embedding w ''test'' of
                     Inl e \<Rightarrow> True | Inr v \<Rightarrow> length v \<noteq> VECTOR_DIM) \<longrightarrow>
                 r \<noteq> Inr () \<and> store s' = store s1
                 \<and> calls s' = calls s1 @ [EmbedText ''test''])"
proof -
  obtain documents s2 where p: "process_documents w s1 = (documents, s2)"
    by (cases "process_documents w s1")
  from process_documents_length [of w s1] p
  have len: "length documents = length (glob_pdf w)
                - length (filter (\<lambda>(p, f). isl (fst (read_pdf p f))) (glob_pdf w))"
    by simp
  from process_documents_errors_logged [of _ _ w _ s1] p
  have errs: "\<forall>(p, f) \<in> set (glob_pdf w). \<forall>e. fst (read_pdf p f) = Inl e \<longrightarrow>
                 Error_processing p (exc_str e) \<in> set (logs s2)"
    by auto
  from process_documents_added [of w s1] p obtain more2 where
    l2: "logs s2 = logs s1 @ more2" and n2: "reported_counts more2 = [length documents]"
    by auto
  have st: "store s2 = store s1"
    using process_documents_store [of w s1] p by simp
  have cl: "calls s2 = calls s1"
    using process_documents_calls [of w s1] p by simp
  show ?thesis
  proof (cases "documents = []")
    case True
    have "force_update w s = Some (Inr (), s2\<lparr> logs := logs s2 @ [Error_no_documents] \<rparr>)"
      using assms p True by (simp add: force_update_def)
    moreover have "reported_counts (more2 @ [Error_no_documents]) = [length documents]"
      using n2 by (simp add: reported_counts_def)
    ultimately show ?thesis
      using p True len errs l2 st cl
      by (intro exI [of _ "Inr ()"] exI [of _ "s2\<lparr> logs := logs s2 @ [Error_no_documents] \<rparr>"]
                exI [of _ "more2 @ [Error_no_documents]"]) auto
  next
    case False
    obtain r3 s3 where c3: "create_index w documents s2 = (r3, s3)"
      by (cases "create_index w documents s2")
    from create_index_added [of w documents s2] c3 obtain more3 where
      l3: "logs s3 = logs s2 @ more3"
      and n3: "reported_counts more3 =
         length (get_nodes_from_documents w documents) #
         (case get_text_embedding w ''test'' of
            Inl e \<Rightarrow> []
          | Inr v \<Rightarrow> if length v = VECTOR_DIM then [VECTOR_DIM] else [])"
      by auto
    have stop: "store s3 = store s1 \<and> calls s3 = calls s1 @ [EmbedText ''test''] \<and> r3 \<noteq> Inr ()"
      if "case get_text_embedding w ''test'' of Inl e \<Rightarrow> True | Inr v \<Rightarrow> length v \<noteq> VECTOR_DIM"
      using create_index_stops [OF that, of documents s2] c3 st cl that
      by (auto simp: create_index_def Let_def split: sum.splits)
    obtain final where f: "force_update w s = Some (r3, s3\<lparr> logs := logs s3 @ [final] \<rparr>)"
      and fc: "entry_counts final = []"
      using assms p False c3 by (cases r3) (auto simp: force_update_def)
    have "reported_counts (more2 @ more3 @ [final]) =
            length documents # length (get_nodes_from_documents w documents) #
              (case get_text_embedding w ''test'' of
                 Inl e \<Rightarrow> []
               | Inr v \<Rightarrow> if length v = VECTOR_DIM then [VECTOR_DIM] else [])"
      using n2 n3 fc by (simp add: reported_counts_def)
    then show ?thesis
      using f p False len errs l2 l3 stop
      by (intro exI [of _ r3] exI [of _ "s3\<lparr> logs := logs s3 @ [final] \<rparr>"]
                exI [of _ "more2 @ more3 @ [final]"]) auto
  qed
qed

text \<open>
  The run of the counterexample, which writes its one node, and the same run
  with a model of three components, which reports one node and writes none.
\<close>

theorem force_update_report_witness:
  "(\<exists>r s' added. force_update wide_world initial_sys = Some (r, s')
      \<and> logs s' = [Info_opensearch_ready, Info_created_index OPENSEARCH_INDEX] @ added
      \<and> reported_counts added = [1, 1, 1024]
      \<and> Error_processing ''pdf_corpus/b.pdf'' ''EOF marker not found'' \<in> set (logs s')
      \<and> Error_processing ''pdf_corpus/c.pdf'' ''bad page'' \<in> set (logs s'))
   \<and> (\<exists>r s' added. force_update (sample_world unit_vector) initial_sys = Some (r, s')
      \<and> logs s' = [Info_opensearch_ready, Info_created_index OPENSEARCH_INDEX] @ added
      \<and> reported_counts added = [1, 1]
      \<and> r \<noteq> Inr ()
      \<and> store s' = Map.empty(OPENSEARCH_INDEX \<mapsto> \<lparr> ix_mapping = index_mapping, ix_docs = [] \<rparr>)
      \<and> calls s' = [Probe 0, IndicesExists OPENSEARCH_INDEX,
                     IndicesCreate OPENSEARCH_INDEX index_mapping, EmbedText ''test''])"
proof -
  let ?s1 = "\<lparr> clock = 1,
             store = Map.empty(OPENSEARCH_INDEX \<mapsto> \<lparr> ix_mapping = index_mapping, ix_docs = [] \<rparr>),
             logs = [Info_opensearch_ready, Info_created_index OPENSEARCH_INDEX],
             calls = [Probe 0, IndicesExists OPENSEARCH_INDEX,
                      IndicesCreate OPENSEARCH_INDEX index_mapping] \<rparr>"
  have g: "glob_pdf (sample_world v) = sample_corpus" for v
    by (simp add: glob_pdf_def sample_world_def)
  have a: "fst (read_pdf ''pdf_corpus/a.pdf'' (Pdf [Inr ''Fiber splice loss'', Inr ''should not exceed 0.3 dB'']))
             = Inr \<lparr> doc_text = ''Fiber splice loss'' @ [CHR 0x0A] @ ''should not exceed 0.3 dB'' @ [CHR 0x0A],
                     doc_metadata = [(''file_path'', ''pdf_corpus/a.pdf'')] \<rparr>"
    by (simp add: read_pdf_def)
  have b: "fst (read_pdf ''pdf_corpus/b.pdf'' (Unreadable (OtherException ''EOF marker not found'')))
             = Inl (OtherException ''EOF marker not found'')"
    by (simp add: read_pdf_def)
  have c: "fst (read_pdf ''pdf_corpus/c.pdf'' (Pdf [Inr ''OTDR trace'', Inl (OtherException ''bad page'')]))
             = Inl (OtherException ''bad page'')"
    by (simp add: read_pdf_def)
  have p: "fst (process_documents (sample_world v) ?s1) =
     [\<lparr> doc_text = ''Fiber splice loss'' @ [CHR 0x0A] @ ''should not exceed 0.3 dB'' @ [CHR 0x0A],
        doc_metadata = [(''file_path'', ''pdf_corpus/a.pdf'')] \<rparr>]" for v
    by (simp add: process_documents_def glob_pdf_def read_pdf_def Let_def
        sample_world_def sample_corpus_def)
  have n: "length (get_nodes_from_documents (sample_world v) ds) = length ds" for v ds
    by (simp add: sample_world_def split_whole_def)
  have e: "get_text_embedding (sample_world v) ''test'' = Inr v" for v
    by (simp add: sample_world_def)
  have wide: "length (replicate 1024 (0::real)) = VECTOR_DIM"
    by (simp add: VECTOR_DIM_def)
  have narrow: "length unit_vector \<noteq> VECTOR_DIM"
    by (simp add: VECTOR_DIM_def unit_vector_def)
  note t1 = force_update_report [OF sample_setup [of "replicate 1024 0"], unfolded g p n e sample_corpus_def]
  note t2 = force_update_report [OF sample_setup [of unit_vector], unfolded g p n e sample_corpus_def]
  from t1 obtain r s' added where
    "force_update (sample_world (replicate 1024 0)) initial_sys = Some (r, s')"
    "logs s' = [Info_opensearch_ready, Info_created_index OPENSEARCH_INDEX] @ added"
    "reported_counts added = [1, 1, 1024]"
    "Error_processing ''pdf_corpus/b.pdf'' ''EOF marker not found'' \<in> set (logs s')"
    "Error_processing ''pdf_corpus/c.pdf'' ''bad page'' \<in> set (logs s')"
    by (auto simp: a b c wide VECTOR_DIM_def)
  then have first: "\<exists>r s' added. force_update wide_world initial_sys = Some (r, s')
      \<and> logs s' = [Info_opensearch_ready, Info_created_index OPENSEARCH_INDEX] @ added
      \<and> reported_counts added = [1, 1, 1024]
      \<and> Error_processing ''pdf_corpus/b.pdf'' ''EOF marker not found'' \<in> set (logs s')
      \<and> Error_processing ''pdf_corpus/c.pdf'' ''bad page'' \<in> set (logs s')"
    unfolding wide_world_def by blast
  from t2 obtain r s' added where
    "force_update (sample_world unit_vector) initial_sys = Some (r, s')"
    "logs s' = [Info_opensearch_ready, Info_created_index OPENSEARCH_INDEX] @ added"
    "reported_counts added = [1, 1]"
    "r \<noteq> Inr ()"
    "store s' = Map.empty(OPENSEARCH_INDEX \<mapsto> \<lparr> ix_mapping = index_mapping, ix_docs = [] \<rparr>)"
    "calls s' = [Probe 0, IndicesExists OPENSEARCH_INDEX,
                 IndicesCreate OPENSEARCH_INDEX index_mapping, EmbedText ''test'']"
    by (auto simp: a b c narrow)
  then have second: "\<exists>r s' added. force_update (sample_world unit_vector) initial_sys = Some (r, s')
      \<and> logs s' = [Info_opensearch_ready, Info_created_index OPENSEARCH_INDEX] @ added
      \<and> reported_counts added = [1, 1]
      \<and> r \<noteq> Inr ()
      \<and> store s' = Map.empty(OPENSEARCH_INDEX \<mapsto> \<lparr> ix_mapping = index_mapping, ix_docs = [] \<rparr>)
      \<and> calls s' = [Probe 0, IndicesExists OPENSEARCH_INDEX,
                     IndicesCreate OPENSEARCH_INDEX index_mapping, EmbedText ''test'']"
    by blast
  from first second show ?thesis by blast
qed

end
